theory Spec2Isabelle
  imports Main
begin

section \<open>Tezos synchronisation: the raw data of the indexer\<close>

text \<open>
  Amounts and fees arrive as JSON numbers counting mutez and are handed to BigNumber, whose
  arithmetic is exact; both are modelled as \<open>int\<close>. A field that may be absent from the
  JSON object (\<open>undefined\<close> in the program) is an \<open>option\<close>.

  The indexer's operation type is a union discriminated by its \<open>type\<close> field. Each
  variant carries the fields that \<open>txToOp\<close> reads for that kind; any other kind is
  \<open>Unsupported\<close>. The object \<open>{ address }\<close> of a party is represented by its address,
  \<open>None\<close> standing for an absent (or null) party.
\<close>

datatype tx_kind =
    Transaction (amount: "int option") (initiator: "string option")
      (sender: "string option") (target: "string option")
  | Delegation (newDelegate: "string option")
  | Reveal
  | Migration (balanceChange: "int option")
  | Origination (contractBalance: "int option") (originatedContract: "string option")
  | Activation (balance: "int option")
  | Unsupported string

record api_operation =
  tx_id :: "string option"
  tx_type :: tx_kind
  hash :: "string option"
  status :: "string option"
  allocationFee :: "int option"
  bakerFee :: "int option"
  storageFee :: "int option"
  level :: int
  block :: string
  timestamp :: string

datatype operation_type = IN | OUT | FEES | DELEGATE | UNDELEGATE | REVEAL | CREATE

text \<open>
  The canonical operation. \<open>date\<close> keeps the timestamp the \<open>Date\<close> object is built from;
  \<open>extra\<close> is the empty object.
\<close>

record operation =
  op_id :: string
  op_hash :: "string option"
  op_type :: operation_type
  op_value :: int
  fee :: int
  senders :: "string list"
  recipients :: "string list"
  blockHeight :: int
  blockHash :: string
  accountId :: string
  date :: string
  extra :: "(string \<times> string) list"
  op_hasFailed :: bool

datatype error = TypeError | Rejected string

subsection \<open>JavaScript truthiness and defaults\<close>

text \<open>A string-valued expression is falsy when it is \<open>undefined\<close> or the empty string.\<close>

definition truthy :: "string option \<Rightarrow> bool" where
  "truthy s = (case s of None \<Rightarrow> False | Some v \<Rightarrow> v \<noteq> [])"

text \<open>\<open>s || ""\<close> on a string that may be absent.\<close>

definition or_empty :: "string option \<Rightarrow> string" where
  "or_empty s = (case s of None \<Rightarrow> [] | Some v \<Rightarrow> v)"

text \<open>\<open>n || 0\<close> on a number that may be absent.\<close>

definition or_zero :: "int option \<Rightarrow> int" where
  "or_zero n = (case n of None \<Rightarrow> 0 | Some v \<Rightarrow> v)"

text \<open>\<open>tx.status ? tx.status !== "applied" : false\<close>\<close>

definition hasFailed :: "api_operation \<Rightarrow> bool" where
  "hasFailed tx = (if truthy (status tx) then status tx \<noteq> Some ''applied'' else False)"

section \<open>The transaction classifier \<open>txToOp\<close>\<close>

text \<open>
  The local variables that the \<open>switch\<close> of \<open>txToOp\<close> has assigned when it reaches
  its \<open>break\<close>.
\<close>

record locals =
  l_type :: operation_type
  maybeValue :: "int option"
  l_senders :: "string list"
  l_recipients :: "string list"

text \<open>
  The \<open>switch\<close> statement. \<open>Inr None\<close> is a \<open>return\<close> without a value (the
  transaction is dropped), \<open>Inl TypeError\<close> the exception of reading \<open>address\<close> from an
  absent \<open>originatedContract\<close>.
\<close>

definition txToOp_switch :: "string \<Rightarrow> api_operation \<Rightarrow> error + locals option" where
  "txToOp_switch address tx =
     (case tx_type tx of
        Transaction amt ini from to \<Rightarrow>
          if from \<noteq> Some address \<and> to \<noteq> Some address \<and> ini \<noteq> Some address then Inr None
          else
            let sndrs = [if truthy from then or_empty from
                       else if truthy ini then or_empty ini else []];
                rcp = [or_empty to]
            in if (from = Some address \<and> to = Some address)
                  \<or> (from \<noteq> Some address \<and> to \<noteq> Some address)
               then Inr (Some \<lparr>l_type = FEES, maybeValue = None,
                                l_senders = sndrs, l_recipients = rcp\<rparr>)
               else
                 let ty = (if to = Some address then IN else OUT)
                 in if \<not> hasFailed tx
                    then let v = or_zero amt
                         in Inr (Some \<lparr>l_type = (if v = 0 then FEES else ty),
                                        maybeValue = Some v,
                                        l_senders = sndrs, l_recipients = rcp\<rparr>)
                    else Inr (Some \<lparr>l_type = ty, maybeValue = None,
                                     l_senders = sndrs, l_recipients = rcp\<rparr>)
      | Delegation nd \<Rightarrow>
          Inr (Some \<lparr>l_type = (if nd \<noteq> None then DELEGATE else UNDELEGATE),
                      maybeValue = None,
                      l_senders = [address],
                      l_recipients = [case nd of Some a \<Rightarrow> a | None \<Rightarrow> []]\<rparr>)
      | Reveal \<Rightarrow>
          Inr (Some \<lparr>l_type = REVEAL, maybeValue = None,
                      l_senders = [address], l_recipients = [address]\<rparr>)
      | Migration bc \<Rightarrow>
          Inr (Some \<lparr>l_type = (case bc of Some c \<Rightarrow> if c < 0 then OUT else IN | None \<Rightarrow> IN),
                      maybeValue = Some \<bar>or_zero bc\<bar>,
                      l_senders = [address], l_recipients = [address]\<rparr>)
      | Origination cb oc \<Rightarrow>
          (case oc of
             None \<Rightarrow> Inl TypeError
           | Some a \<Rightarrow>
               Inr (Some \<lparr>l_type = CREATE, maybeValue = Some (or_zero cb),
                           l_senders = [address], l_recipients = [a]\<rparr>))
      | Activation b \<Rightarrow>
          Inr (Some \<lparr>l_type = IN, maybeValue = Some (or_zero b),
                      l_senders = [address], l_recipients = [address]\<rparr>)
      | Unsupported k \<Rightarrow> Inr None)"

text \<open>
  \<open>maybeValue || BigNumber(0)\<close>: a BigNumber object is truthy whatever number it holds, so
  only an unassigned \<open>maybeValue\<close> gives the default.
\<close>

definition principal :: "int option \<Rightarrow> int" where
  "principal mv = (case mv of None \<Rightarrow> 0 | Some v \<Rightarrow> v)"

text \<open>The fee: the baker fee, plus the allocation and storage fees unless the transaction failed.\<close>

definition tx_fee :: "api_operation \<Rightarrow> int" where
  "tx_fee tx =
     (let fee0 = or_zero (bakerFee tx)
      in if \<not> hasFailed tx
         then fee0 + or_zero (allocationFee tx) + or_zero (storageFee tx)
         else fee0)"

text \<open>
  The part of \<open>txToOp\<close> after the \<open>switch\<close>. \<open>encodeOperationId\<close> is imported from
  another module and is a parameter here.
\<close>

definition txToOp_settle ::
  "(string \<Rightarrow> string option \<Rightarrow> operation_type \<Rightarrow> string) \<Rightarrow> string \<Rightarrow>
   api_operation \<Rightarrow> locals \<Rightarrow> operation option" where
  "txToOp_settle encodeOperationId acc tx l =
     (let v = principal (maybeValue l)
      in if l_type l = IN \<and> v = 0 then None
         else
           let f = tx_fee tx;
               v' = (if l_type l \<noteq> IN then v + f else v)
           in Some \<lparr>op_id = encodeOperationId acc (hash tx) (l_type l),
                    op_hash = hash tx,
                    op_type = l_type l,
                    op_value = v',
                    fee = f,
                    senders = l_senders l,
                    recipients = l_recipients l,
                    blockHeight = level tx,
                    blockHash = block tx,
                    accountId = acc,
                    date = timestamp tx,
                    extra = [],
                    op_hasFailed = hasFailed tx\<rparr>)"

definition txToOp ::
  "(string \<Rightarrow> string option \<Rightarrow> operation_type \<Rightarrow> string) \<Rightarrow> string \<Rightarrow> string \<Rightarrow>
   api_operation \<Rightarrow> error + operation option" where
  "txToOp encodeOperationId address acc tx =
     (case txToOp_switch address tx of
        Inl e \<Rightarrow> Inl e
      | Inr None \<Rightarrow> Inr None
      | Inr (Some l) \<Rightarrow> Inr (txToOp_settle encodeOperationId acc tx l))"

text \<open>
  The principal the transaction carries, kind by kind: the amount of a transfer that did not
  fail and has the account on exactly one side, the absolute balance change of a migration,
  the balance of an originated contract, the balance of an activation, and nothing otherwise.
  It is written independently of \<open>txToOp_switch\<close> and compared with it below.
\<close>

definition principal_of :: "string \<Rightarrow> api_operation \<Rightarrow> int" where
  "principal_of address tx =
     (case tx_type tx of
        Transaction amt ini from to \<Rightarrow>
          if (from = Some address \<and> to = Some address)
             \<or> (from \<noteq> Some address \<and> to \<noteq> Some address)
          then 0
          else if hasFailed tx then 0 else or_zero amt
      | Delegation nd \<Rightarrow> 0
      | Reveal \<Rightarrow> 0
      | Migration bc \<Rightarrow> \<bar>or_zero bc\<bar>
      | Origination cb oc \<Rightarrow> or_zero cb
      | Activation b \<Rightarrow> or_zero b
      | Unsupported k \<Rightarrow> 0)"

section \<open>The paginated fetcher \<open>fetchAllTransactions\<close>\<close>

text \<open>
  \<open>api.getAccountOperations\<close> is the indexer, outside the program: the answer to the
  request number \<open>n\<close> (counting from 0) for an address and a cursor is a page of operations
  or a rejected promise. The number of requests sent so far is the state the fetcher
  threads, and it is returned beside the result.

  \<open>maxIteration\<close> is a number that \<open>while (--maxIteration)\<close> decrements and tests against
  zero, so the loop is not bounded by its shape: it is a partial function, \<open>None\<close> meaning
  that it never returns.
\<close>

type_synonym indexer = "nat \<Rightarrow> string \<Rightarrow> string option \<Rightarrow> error + api_operation list"

partial_function (option) fetch_loop ::
  "indexer \<Rightarrow> string \<Rightarrow> nat \<Rightarrow> string option \<Rightarrow> api_operation list \<Rightarrow> int \<Rightarrow>
   ((error + api_operation list) \<times> nat) option" where
  "fetch_loop getAccountOperations address calls lastId txs maxIteration =
     (case getAccountOperations calls address lastId of
        Inl e \<Rightarrow> Some (Inl e, Suc calls)
      | Inr r \<Rightarrow>
          if length r = 0 then Some (Inr txs, Suc calls)
          else
            let txs' = txs @ r;
                lastId' = tx_id (last txs')
            in if \<not> truthy lastId' then Some (Inr txs', Suc calls)
               else
                 let maxIteration' = maxIteration - 1
                 in if maxIteration' \<noteq> 0
                    then fetch_loop getAccountOperations address (Suc calls) lastId' txs'
                           maxIteration'
                    else Some (Inr txs', Suc calls))"

definition fetchAllTransactions ::
  "indexer \<Rightarrow> string \<Rightarrow> string option \<Rightarrow> ((error + api_operation list) \<times> nat) option" where
  "fetchAllTransactions getAccountOperations address lastId =
     fetch_loop getAccountOperations address 0 lastId [] 20"

text \<open>
  The pages as the indexer serves them along the chain of cursors: the cursor of request
  \<open>i + 1\<close> is the id of the last item of page \<open>i\<close>. These definitions describe the
  conversation; the fetcher is compared with them below.
\<close>

fun cursor_at :: "indexer \<Rightarrow> string \<Rightarrow> string option \<Rightarrow> nat \<Rightarrow> string option" where
  "cursor_at api address lastId 0 = lastId"
| "cursor_at api address lastId (Suc i) =
     (case api i address (cursor_at api address lastId i) of
        Inl e \<Rightarrow> None
      | Inr r \<Rightarrow> if r = [] then None else tx_id (last r))"

definition page_at :: "indexer \<Rightarrow> string \<Rightarrow> string option \<Rightarrow> nat \<Rightarrow> error + api_operation list" where
  "page_at api address lastId i = api i address (cursor_at api address lastId i)"

definition page_items :: "indexer \<Rightarrow> string \<Rightarrow> string option \<Rightarrow> nat \<Rightarrow> api_operation list" where
  "page_items api address lastId i =
     (case page_at api address lastId i of Inl e \<Rightarrow> [] | Inr r \<Rightarrow> r)"

text \<open>
  A page ends the fetch when it is empty or when the id of its last item is falsy
  (absent, or the empty string); a rejected request ends it with the rejection.
\<close>

definition page_stops :: "indexer \<Rightarrow> string \<Rightarrow> string option \<Rightarrow> nat \<Rightarrow> bool" where
  "page_stops api address lastId i =
     (case page_at api address lastId i of
        Inl e \<Rightarrow> True
      | Inr r \<Rightarrow> r = [] \<or> \<not> truthy (tx_id (last r)))"

definition fetched :: "indexer \<Rightarrow> string \<Rightarrow> string option \<Rightarrow> nat \<Rightarrow> error + api_operation list" where
  "fetched api address lastId n =
     (case page_at api address lastId (n - 1) of
        Inl e \<Rightarrow> Inl e
      | Inr r \<Rightarrow> Inr (concat (map (page_items api address lastId) [0..<n])))"

section \<open>The sub-account reconciler \<open>reconciliateSubAccounts\<close>\<close>

text \<open>
  The reconciler compares objects by reference and returns either an array it was given or
  a new one, so objects and arrays live in a store and are named by their addresses. An
  object is the list of its enumerable properties in the order \<open>for ... in\<close> visits them.
  Every reference of the program designates an object; the store is total on addresses.
\<close>

type_synonym ref = nat

datatype jsval = JUndefined | JNull | JBool bool | JNum int | JNaN | JStr string | JRef ref

type_synonym object = "(string \<times> jsval) list"

record store =
  objects :: "ref \<Rightarrow> object"
  arrays :: "ref \<Rightarrow> ref list"
  next_ref :: ref

text \<open>\<open>a === b\<close>: equal primitives or the same reference; \<open>NaN\<close> differs from itself.\<close>

definition strict_eq :: "jsval \<Rightarrow> jsval \<Rightarrow> bool" where
  "strict_eq a b = (a = b \<and> a \<noteq> JNaN)"

text \<open>\<open>o[k]\<close>: a property the object does not have reads as \<open>undefined\<close>.\<close>

definition get_prop :: "object \<Rightarrow> string \<Rightarrow> jsval" where
  "get_prop ob k = (case map_of ob k of None \<Rightarrow> JUndefined | Some v \<Rightarrow> v)"

text \<open>The array literal or \<open>map\<close> result: a new array at the next free address.\<close>

definition new_array :: "store \<Rightarrow> ref list \<Rightarrow> ref \<times> store" where
  "new_array s xs =
     (next_ref s, s\<lparr>arrays := (arrays s)(next_ref s := xs), next_ref := Suc (next_ref s)\<rparr>)"

text \<open>
  The account read by the reconciler: only its \<open>subAccounts\<close> field is used, which may be
  absent.
\<close>

record account =
  subAccounts :: "ref option"

text \<open>
  The change notes pushed to \<open>stats\<close>: \<open>"length differ"\<close>,
  \<open>`field ${k} changed for ${ta.id}`\<close> and \<open>`new token account ${ta.id}`\<close>, kept with
  the values they interpolate.
\<close>

datatype change_note = Length_differ | Field_changed string jsval | New_token_account jsval

record progress =
  anySubAccountHaveChanged :: bool
  stats :: "change_note list"

text \<open>\<open>initialSubAccounts?.find((a) => a.id === ta.id)\<close>\<close>

definition find_existing :: "store \<Rightarrow> ref list option \<Rightarrow> ref \<Rightarrow> ref option" where
  "find_existing s initialSubAccounts ta =
     (case initialSubAccounts of
        None \<Rightarrow> None
      | Some as \<Rightarrow>
          find (\<lambda>a. strict_eq (get_prop (objects s a) ''id'') (get_prop (objects s ta) ''id'')) as)"

text \<open>
  The \<open>for (let k in existing)\<close> loop with its \<open>break\<close>: the first key of \<open>existing\<close>
  whose value differs in \<open>ta\<close>, if there is one.
\<close>

fun first_difference :: "object \<Rightarrow> object \<Rightarrow> string list \<Rightarrow> string option" where
  "first_difference existing ta [] = None"
| "first_difference existing ta (k # ks) =
     (if \<not> strict_eq (get_prop existing k) (get_prop ta k) then Some k
      else first_difference existing ta ks)"

text \<open>The callback of \<open>tokenAccounts.map\<close>, with the two variables it updates.\<close>

definition reconcile_entry ::
  "store \<Rightarrow> ref list option \<Rightarrow> ref \<Rightarrow> progress \<Rightarrow> ref \<times> progress" where
  "reconcile_entry s initialSubAccounts ta p =
     (case find_existing s initialSubAccounts ta of
        Some existing \<Rightarrow>
          (case (if existing \<noteq> ta
                 then first_difference (objects s existing) (objects s ta)
                        (map fst (objects s existing))
                 else None) of
             None \<Rightarrow> (existing, p)
           | Some k \<Rightarrow>
               (ta, p\<lparr>anySubAccountHaveChanged := True,
                      stats := stats p @ [Field_changed k (get_prop (objects s ta) ''id'')]\<rparr>))
      | None \<Rightarrow>
          (ta, p\<lparr>anySubAccountHaveChanged := True,
                 stats := stats p @ [New_token_account (get_prop (objects s ta) ''id'')]\<rparr>))"

fun map_entries ::
  "store \<Rightarrow> ref list option \<Rightarrow> ref list \<Rightarrow> progress \<Rightarrow> ref list \<times> progress" where
  "map_entries s initialSubAccounts [] p = ([], p)"
| "map_entries s initialSubAccounts (ta # tas) p =
     (let (r, p') = reconcile_entry s initialSubAccounts ta p;
          (rs, p'') = map_entries s initialSubAccounts tas p'
      in (r # rs, p''))"

text \<open>
  The state of \<open>subAccounts\<close>, \<open>anySubAccountHaveChanged\<close> and \<open>stats\<close> after the
  \<open>map\<close>, for an \<open>initialAccount\<close> that is present.
\<close>

definition reconcile_pass :: "store \<Rightarrow> ref \<Rightarrow> account \<Rightarrow> ref list \<times> progress" where
  "reconcile_pass s tokenAccounts initialAccount =
     (let initialSubAccounts = map_option (arrays s) (subAccounts initialAccount);
          p0 = (case initialSubAccounts of
                  None \<Rightarrow> \<lparr>anySubAccountHaveChanged = False, stats = []\<rparr>
                | Some as \<Rightarrow>
                    if length (arrays s tokenAccounts) \<noteq> length as
                    then \<lparr>anySubAccountHaveChanged = True, stats = [Length_differ]\<rparr>
                    else \<lparr>anySubAccountHaveChanged = False, stats = []\<rparr>)
      in map_entries s initialSubAccounts (arrays s tokenAccounts) p0)"

text \<open>The two messages given to \<open>log\<close>.\<close>

datatype log_entry = Have_not_changed nat | Changed "change_note list"

record outcome =
  returned :: ref
  final_store :: store
  logged :: "log_entry option"

definition reconciliateSubAccounts :: "store \<Rightarrow> ref \<Rightarrow> account option \<Rightarrow> outcome" where
  "reconciliateSubAccounts s tokenAccounts initialAccount =
     (case initialAccount of
        Some acct \<Rightarrow>
          let (mapped, p) = reconcile_pass s tokenAccounts acct;
              (fresh, s') = new_array s mapped
          in (case subAccounts acct of
                Some initialSubAccounts \<Rightarrow>
                  if \<not> anySubAccountHaveChanged p
                  then \<lparr>returned = initialSubAccounts, final_store = s',
                        logged = Some (Have_not_changed (length (arrays s' initialSubAccounts)))\<rparr>
                  else \<lparr>returned = fresh, final_store = s', logged = Some (Changed (stats p))\<rparr>
              | None \<Rightarrow>
                  \<lparr>returned = fresh, final_store = s', logged = Some (Changed (stats p))\<rparr>)
      | None \<Rightarrow>
          let (fresh, s') = new_array s (map (\<lambda>a. a) (arrays s tokenAccounts))
          in \<lparr>returned = fresh, final_store = s', logged = None\<rparr>)"


section \<open>Bitcoin: \<open>estimateMaxSpendable\<close>\<close>

text \<open>
  The satoshi amounts held by BigNumber objects are \<open>int\<close>. Of the transaction only
  \<open>feePerByte\<close> is read; it is a BigNumber or absent, and a BigNumber is truthy whatever
  its value. The collaborators are parameters: \<open>getMainAccount\<close>, the asynchronous
  \<open>getWalletAccount\<close>, \<open>getAccountNetworkInfo\<close> and \<open>wallet.estimateAccountMaxSpendable\<close>,
  each of which may throw or reject, and \<open>toNumber\<close>, which gives the JavaScript number
  the wallet takes.
\<close>

record fee_items =
  defaultFeePerByte :: int

record network_info =
  feeItems :: fee_items

record transaction =
  feePerByte :: "int option"

text \<open>
  The fee rate: the transaction's own when it has one, the network's default otherwise
  (the network is asked only in that case).
\<close>

definition fee_per_byte ::
  "('m \<Rightarrow> error + network_info) \<Rightarrow> 'm \<Rightarrow> transaction option \<Rightarrow> error + int" where
  "fee_per_byte getAccountNetworkInfo mainAccount tr =
     (case (case tr of None \<Rightarrow> None | Some t \<Rightarrow> feePerByte t) of
        Some f \<Rightarrow> Inr f
      | None \<Rightarrow>
          (case getAccountNetworkInfo mainAccount of
             Inl e \<Rightarrow> Inl e
           | Inr networkInfo \<Rightarrow> Inr (defaultFeePerByte (feeItems networkInfo))))"

definition estimateMaxSpendable ::
  "('a \<Rightarrow> 'p option \<Rightarrow> error + 'm) \<Rightarrow> ('m \<Rightarrow> error + 'w) \<Rightarrow> ('m \<Rightarrow> error + network_info) \<Rightarrow>
   ('w \<Rightarrow> 'n \<Rightarrow> error + int) \<Rightarrow> (int \<Rightarrow> 'n) \<Rightarrow>
   'a \<Rightarrow> 'p option \<Rightarrow> transaction option \<Rightarrow> error + int" where
  "estimateMaxSpendable getMainAccount getWalletAccount getAccountNetworkInfo
       estimateAccountMaxSpendable toNumber acct parentAccount tr =
     (case getMainAccount acct parentAccount of
        Inl e \<Rightarrow> Inl e
      | Inr mainAccount \<Rightarrow>
          (case getWalletAccount mainAccount of
             Inl e \<Rightarrow> Inl e
           | Inr walletAccount \<Rightarrow>
               (case fee_per_byte getAccountNetworkInfo mainAccount tr of
                  Inl e \<Rightarrow> Inl e
                | Inr f \<Rightarrow>
                    (case estimateAccountMaxSpendable walletAccount (toNumber f) of
                       Inl e \<Rightarrow> Inl e
                     | Inr maxSpendable \<Rightarrow>
                         Inr (if maxSpendable < 0 then 0 else maxSpendable)))))"

section \<open>Sample inputs\<close>

text \<open>Concrete inputs on which the theorems below are instantiated.\<close>

definition sample_encodeOperationId :: "string \<Rightarrow> string option \<Rightarrow> operation_type \<Rightarrow> string" where
  "sample_encodeOperationId acc h ty =
     acc @ ''-'' @ or_empty h @ ''-'' @
     (case ty of IN \<Rightarrow> ''IN'' | OUT \<Rightarrow> ''OUT'' | FEES \<Rightarrow> ''FEES'' | DELEGATE \<Rightarrow> ''DELEGATE''
      | UNDELEGATE \<Rightarrow> ''UNDELEGATE'' | REVEAL \<Rightarrow> ''REVEAL'' | CREATE \<Rightarrow> ''CREATE'')"

text \<open>An operation of the given kind and status with baker fee 1, allocation fee 5, storage fee 2.\<close>

definition sample_tx :: "string \<Rightarrow> tx_kind \<Rightarrow> string \<Rightarrow> api_operation" where
  "sample_tx i k st =
     \<lparr>tx_id = Some i, tx_type = k, hash = Some ''oo1'', status = Some st,
      allocationFee = Some 5, bakerFee = Some 1, storageFee = Some 2,
      level = 7, block = ''BL'', timestamp = ''2021-03-01T00:00:00Z''\<rparr>"

text \<open>
  An indexer that holds two pages for every address: the first is served to a request
  without cursor, the second to the cursor \<open>''1''\<close>, and nothing after the cursor \<open>''2''\<close>.
\<close>

definition sample_indexer :: indexer where
  "sample_indexer n address lastId =
     (if lastId = None then Inr [sample_tx ''1'' Reveal ''applied'']
      else if lastId = Some ''1'' then Inr [sample_tx ''2'' (Activation (Some 9)) ''applied'']
      else Inr [])"



text \<open>An indexer that serves the same one-item page whatever the cursor.\<close>

definition endless_indexer :: indexer where
  "endless_indexer n address lastId = Inr [sample_tx ''7'' Reveal ''applied'']"

text \<open>
  Collaborators of \<open>estimateMaxSpendable\<close> over accounts named by numbers: the wallet's
  estimate is the account number minus a hundred times the fee rate.
\<close>

definition sample_getMainAccount :: "int \<Rightarrow> int option \<Rightarrow> error + int" where
  "sample_getMainAccount acct parentAccount = Inr acct"

definition sample_getWalletAccount :: "int \<Rightarrow> error + int" where
  "sample_getWalletAccount mainAccount = Inr mainAccount"

definition sample_getAccountNetworkInfo :: "int \<Rightarrow> error + network_info" where
  "sample_getAccountNetworkInfo mainAccount = Inr \<lparr>feeItems = \<lparr>defaultFeePerByte = 2\<rparr>\<rparr>"

definition sample_estimateAccountMaxSpendable :: "int \<Rightarrow> int \<Rightarrow> error + int" where
  "sample_estimateAccountMaxSpendable walletAccount rate = Inr (walletAccount - 100 * rate)"

section \<open>Properties of the classifier\<close>

lemma switch_principal:
  "txToOp_switch address tx = Inr (Some l) \<Longrightarrow> principal (maybeValue l) = principal_of address tx"
  by (auto simp: txToOp_switch_def principal_of_def principal_def Let_def
           split: tx_kind.splits if_splits option.splits)

lemma txToOp_SomeD:
  "txToOp enc address acc tx = Inr (Some op) \<Longrightarrow>
   \<exists>l. txToOp_switch address tx = Inr (Some l) \<and> txToOp_settle enc acc tx l = Some op"
  by (auto simp: txToOp_def split: sum.splits option.splits)

lemma settle_SomeD:
  "txToOp_settle enc acc tx l = Some op \<Longrightarrow>
   op_type op = l_type l \<and> fee op = tx_fee tx \<and> senders op = l_senders l \<and>
   recipients op = l_recipients l \<and> \<not> (l_type l = IN \<and> principal (maybeValue l) = 0) \<and>
   op_value op = (if l_type l \<noteq> IN then principal (maybeValue l) + tx_fee tx
                  else principal (maybeValue l))"
  by (auto simp: txToOp_settle_def Let_def split: if_splits)

lemma switch_singletons:
  "txToOp_switch address tx = Inr (Some l) \<Longrightarrow>
   length (l_senders l) = 1 \<and> length (l_recipients l) = 1"
  by (auto simp: txToOp_switch_def Let_def split: tx_kind.splits if_splits option.splits)

lemma switch_fees_only:
  assumes "tx_type tx = Transaction amt ini from to"
    and "(from = Some address \<and> to = Some address) \<or>
         (from \<noteq> Some address \<and> to \<noteq> Some address \<and> ini = Some address)"
  shows "\<exists>l. txToOp_switch address tx = Inr (Some l) \<and> l_type l = FEES \<and> maybeValue l = None"
  using assms by (auto simp: txToOp_switch_def Let_def)

lemma switch_zero_amount:
  assumes "tx_type tx = Transaction amt ini from to"
    and "from = Some address \<or> to = Some address \<or> ini = Some address"
    and "or_zero amt = 0"
    and "\<not> hasFailed tx"
  shows "\<exists>l. txToOp_switch address tx = Inr (Some l) \<and> l_type l = FEES"
  using assms
  by (cases "from = Some address"; cases "to = Some address")
     (simp_all add: txToOp_switch_def Let_def)

lemma settle_not_IN:
  "l_type l \<noteq> IN \<Longrightarrow> \<exists>op. txToOp_settle enc acc tx l = Some op"
  by (simp add: txToOp_settle_def Let_def)

text \<open>
  C1. Whenever \<open>txToOp\<close> emits an operation, its fee is the computed fee; its value is the
  principal plus that fee when the type is not \<open>IN\<close>, and the principal alone when the type
  is \<open>IN\<close>.
\<close>

theorem txToOp_value:
  assumes "txToOp enc address acc tx = Inr (Some op)"
  shows "fee op = tx_fee tx \<and>
         (op_type op \<noteq> IN \<longrightarrow> op_value op = principal_of address tx + tx_fee tx) \<and>
         (op_type op = IN \<longrightarrow> op_value op = principal_of address tx)"
proof -
  from assms obtain l where sw: "txToOp_switch address tx = Inr (Some l)"
    and st: "txToOp_settle enc acc tx l = Some op"
    using txToOp_SomeD by blast
  from switch_principal [OF sw] settle_SomeD [OF st] show ?thesis by simp
qed

theorem txToOp_value_witness:
  "(\<exists>op. txToOp sample_encodeOperationId ''A'' ''acc''
            (sample_tx ''1'' (Transaction (Some 100) None (Some ''A'') (Some ''B'')) ''applied'')
          = Inr (Some op) \<and>
         op_type op = OUT \<and> op_value op = 108 \<and> fee op = 8) \<and>
   (\<exists>op. txToOp sample_encodeOperationId ''A'' ''acc''
            (sample_tx ''1'' (Transaction (Some 50) None (Some ''B'') (Some ''A'')) ''applied'')
          = Inr (Some op) \<and>
         op_type op = IN \<and> op_value op = 50 \<and> fee op = 8)"
proof -
  let ?out = "sample_tx ''1'' (Transaction (Some 100) None (Some ''A'') (Some ''B'')) ''applied''"
  let ?inc = "sample_tx ''1'' (Transaction (Some 50) None (Some ''B'') (Some ''A'')) ''applied''"
  obtain op where h: "txToOp sample_encodeOperationId ''A'' ''acc'' ?out = Inr (Some op)"
    and ty: "op_type op = OUT"
    by (simp add: txToOp_def txToOp_switch_def txToOp_settle_def sample_tx_def hasFailed_def
          truthy_def or_zero_def or_empty_def principal_def Let_def)
  have "tx_fee ?out = 8" "principal_of ''A'' ?out = 100"
    by (simp_all add: tx_fee_def principal_of_def sample_tx_def hasFailed_def truthy_def
          or_zero_def Let_def)
  with txToOp_value [OF h] h ty
  have outgoing: "\<exists>op. txToOp sample_encodeOperationId ''A'' ''acc'' ?out = Inr (Some op) \<and>
                    op_type op = OUT \<and> op_value op = 108 \<and> fee op = 8"
    by simp
  obtain op' where h': "txToOp sample_encodeOperationId ''A'' ''acc'' ?inc = Inr (Some op')"
    and ty': "op_type op' = IN"
    by (simp add: txToOp_def txToOp_switch_def txToOp_settle_def sample_tx_def hasFailed_def
          truthy_def or_zero_def or_empty_def principal_def Let_def)
  have "tx_fee ?inc = 8" "principal_of ''A'' ?inc = 50"
    by (simp_all add: tx_fee_def principal_of_def sample_tx_def hasFailed_def truthy_def
          or_zero_def Let_def)
  with txToOp_value [OF h'] h' ty'
  have "\<exists>op. txToOp sample_encodeOperationId ''A'' ''acc'' ?inc = Inr (Some op) \<and>
          op_type op = IN \<and> op_value op = 50 \<and> fee op = 8"
    by simp
  with outgoing show ?thesis by blast
qed

text \<open>
  C2. Whenever \<open>txToOp\<close> emits an operation, its fee is the baker fee alone if the
  transaction failed (its status is present and is not \<open>applied\<close>, which the status
  \<open>failed\<close> is), and the baker fee plus the allocation fee plus the storage fee if it did
  not fail.
\<close>

theorem txToOp_fee:
  assumes "txToOp enc address acc tx = Inr (Some op)"
  shows "(hasFailed tx \<longrightarrow> fee op = or_zero (bakerFee tx)) \<and>
         (\<not> hasFailed tx \<longrightarrow>
            fee op = or_zero (bakerFee tx) + or_zero (allocationFee tx) + or_zero (storageFee tx)) \<and>
         (status tx = Some ''failed'' \<longrightarrow> hasFailed tx)"
proof -
  from assms obtain l where st: "txToOp_settle enc acc tx l = Some op"
    using txToOp_SomeD by blast
  from settle_SomeD [OF st] have "fee op = tx_fee tx" by simp
  then show ?thesis by (simp add: tx_fee_def hasFailed_def truthy_def)
qed

theorem txToOp_fee_witness:
  "(\<exists>op. txToOp sample_encodeOperationId ''A'' ''acc''
            (sample_tx ''1'' (Transaction (Some 100) None (Some ''A'') (Some ''B'')) ''failed'')
          = Inr (Some op) \<and> fee op = 1) \<and>
   (\<exists>op. txToOp sample_encodeOperationId ''A'' ''acc''
            (sample_tx ''1'' (Transaction (Some 100) None (Some ''A'') (Some ''B'')) ''applied'')
          = Inr (Some op) \<and> fee op = 8)"
proof -
  let ?bad = "sample_tx ''1'' (Transaction (Some 100) None (Some ''A'') (Some ''B'')) ''failed''"
  let ?good = "sample_tx ''1'' (Transaction (Some 100) None (Some ''A'') (Some ''B'')) ''applied''"
  obtain op where h: "txToOp sample_encodeOperationId ''A'' ''acc'' ?bad = Inr (Some op)"
    by (simp add: txToOp_def txToOp_switch_def txToOp_settle_def sample_tx_def hasFailed_def
          truthy_def or_zero_def or_empty_def principal_def Let_def)
  have "status ?bad = Some ''failed''" "or_zero (bakerFee ?bad) = 1"
    by (simp_all add: sample_tx_def or_zero_def)
  with txToOp_fee [OF h] h
  have failed: "\<exists>op. txToOp sample_encodeOperationId ''A'' ''acc'' ?bad = Inr (Some op) \<and>
                  fee op = 1"
    by auto
  obtain op' where h': "txToOp sample_encodeOperationId ''A'' ''acc'' ?good = Inr (Some op')"
    by (simp add: txToOp_def txToOp_switch_def txToOp_settle_def sample_tx_def hasFailed_def
          truthy_def or_zero_def or_empty_def principal_def Let_def)
  have "\<not> hasFailed ?good"
    "or_zero (bakerFee ?good) + or_zero (allocationFee ?good) + or_zero (storageFee ?good) = 8"
    by (simp_all add: sample_tx_def or_zero_def hasFailed_def)
  with txToOp_fee [OF h'] h'
  have "\<exists>op. txToOp sample_encodeOperationId ''A'' ''acc'' ?good = Inr (Some op) \<and> fee op = 8"
    by auto
  with failed show ?thesis by blast
qed

text \<open>
  C5. A transfer whose sender and target are both the account, or whose sender and target
  are both different from the account while its initiator is the account, is emitted with
  type \<open>FEES\<close>; the switch assigns it no principal, so its value is the fee alone.
\<close>

theorem txToOp_self_or_initiator_only:
  assumes "tx_type tx = Transaction amt ini from to"
    and "(from = Some address \<and> to = Some address) \<or>
         (from \<noteq> Some address \<and> to \<noteq> Some address \<and> ini = Some address)"
  shows "\<exists>op l. txToOp enc address acc tx = Inr (Some op) \<and>
                txToOp_switch address tx = Inr (Some l) \<and> principal (maybeValue l) = 0 \<and>
                op_type op = FEES \<and> op_value op = tx_fee tx \<and> fee op = tx_fee tx"
proof -
  from switch_fees_only [OF assms] obtain l
    where sw: "txToOp_switch address tx = Inr (Some l)" and ty: "l_type l = FEES"
      and mv: "maybeValue l = None"
    by blast
  from ty obtain op where st: "txToOp_settle enc acc tx l = Some op"
    using settle_not_IN [of l enc acc tx] by auto
  from sw st have "txToOp enc address acc tx = Inr (Some op)" by (simp add: txToOp_def)
  moreover from mv have "principal (maybeValue l) = 0" by (simp add: principal_def)
  ultimately show ?thesis using settle_SomeD [OF st] sw ty by auto
qed

theorem txToOp_self_or_initiator_only_witness:
  "\<exists>op. txToOp sample_encodeOperationId ''A'' ''acc''
           (sample_tx ''1'' (Transaction (Some 100) None (Some ''A'') (Some ''A'')) ''applied'')
         = Inr (Some op) \<and> op_type op = FEES \<and> op_value op = 8"
proof -
  let ?tx = "sample_tx ''1'' (Transaction (Some 100) None (Some ''A'') (Some ''A'')) ''applied''"
  have k: "tx_type ?tx = Transaction (Some 100) None (Some ''A'') (Some ''A'')"
    by (simp add: sample_tx_def)
  have c: "(Some ''A'' = Some ''A'' \<and> Some ''A'' = Some ''A'') \<or>
           (Some ''A'' \<noteq> Some ''A'' \<and> Some ''A'' \<noteq> Some ''A'' \<and> None = Some ''A'')"
    by simp
  have "tx_fee ?tx = 8"
    by (simp add: tx_fee_def sample_tx_def hasFailed_def truthy_def or_zero_def Let_def)
  with txToOp_self_or_initiator_only [OF k c, of sample_encodeOperationId "''acc''"]
  show ?thesis by auto
qed

text \<open>
  C6. A transfer that involves the account (as sender, target or initiator), did not fail
  and has a zero (or absent) amount is emitted with type \<open>FEES\<close>, hence neither \<open>IN\<close> nor
  \<open>OUT\<close>.
\<close>

theorem txToOp_zero_amount:
  assumes "tx_type tx = Transaction amt ini from to"
    and "from = Some address \<or> to = Some address \<or> ini = Some address"
    and "or_zero amt = 0"
    and "\<not> hasFailed tx"
  shows "\<exists>op. txToOp enc address acc tx = Inr (Some op) \<and> op_type op = FEES \<and>
              op_type op \<noteq> IN \<and> op_type op \<noteq> OUT"
proof -
  from switch_zero_amount [OF assms] obtain l
    where sw: "txToOp_switch address tx = Inr (Some l)" and ty: "l_type l = FEES"
    by blast
  from ty obtain op where st: "txToOp_settle enc acc tx l = Some op"
    using settle_not_IN [of l enc acc tx] by auto
  from sw st have "txToOp enc address acc tx = Inr (Some op)" by (simp add: txToOp_def)
  then show ?thesis using settle_SomeD [OF st] ty by auto
qed

theorem txToOp_zero_amount_witness:
  "\<exists>op. txToOp sample_encodeOperationId ''A'' ''acc''
           (sample_tx ''1'' (Transaction (Some 0) None (Some ''B'') (Some ''A'')) ''applied'')
         = Inr (Some op) \<and> op_type op = FEES"
proof -
  let ?tx = "sample_tx ''1'' (Transaction (Some 0) None (Some ''B'') (Some ''A'')) ''applied''"
  have k: "tx_type ?tx = Transaction (Some 0) None (Some ''B'') (Some ''A'')"
    by (simp add: sample_tx_def)
  have r: "Some ''B'' = Some ''A'' \<or> Some ''A'' = Some ''A'' \<or> None = Some ''A''" by simp
  have z: "or_zero (Some 0) = 0" by (simp add: or_zero_def)
  have f: "\<not> hasFailed ?tx" by (simp add: hasFailed_def sample_tx_def)
  from txToOp_zero_amount [OF k r z f, of sample_encodeOperationId "''acc''"]
  show ?thesis by auto
qed

text \<open>
  A transaction that leaves the switch with type \<open>IN\<close> and no principal is dropped.
\<close>

lemma settle_zero_IN_dropped:
  "l_type l = IN \<Longrightarrow> principal (maybeValue l) = 0 \<Longrightarrow> txToOp_settle enc acc tx l = None"
  by (simp add: txToOp_settle_def)

lemma switch_zero_activation:
  assumes "tx_type tx = Activation b" and "or_zero b = 0"
  shows "txToOp_switch address tx =
           Inr (Some \<lparr>l_type = IN, maybeValue = Some 0,
                      l_senders = [address], l_recipients = [address]\<rparr>)"
  using assms by (simp add: txToOp_switch_def)

lemma switch_zero_migration:
  assumes "tx_type tx = Migration bc" and "or_zero bc = 0"
  shows "txToOp_switch address tx =
           Inr (Some \<lparr>l_type = IN, maybeValue = Some 0,
                      l_senders = [address], l_recipients = [address]\<rparr>)"
  using assms by (auto simp: txToOp_switch_def or_zero_def split: option.splits)

text \<open>
  C7. \<open>txToOp\<close> never emits an operation of type \<open>IN\<close> with value zero, for any kind of
  raw transaction; and every raw transaction that the switch classifies as \<open>IN\<close> with a
  zero principal is discarded: \<open>txToOp\<close> returns no operation for it. In particular an
  activation whose balance is zero or absent and a migration whose balance change is zero
  or absent are discarded.
\<close>

theorem txToOp_never_zero_IN:
  "(\<forall>op. txToOp enc address acc tx = Inr (Some op) \<longrightarrow>
          \<not> (op_type op = IN \<and> op_value op = 0)) \<and>
   (\<forall>l. txToOp_switch address tx = Inr (Some l) \<and> l_type l = IN \<and>
         principal (maybeValue l) = 0 \<longrightarrow>
          txToOp enc address acc tx = Inr None) \<and>
   (\<forall>b. tx_type tx = Activation b \<and> or_zero b = 0 \<longrightarrow>
          txToOp enc address acc tx = Inr None) \<and>
   (\<forall>bc. tx_type tx = Migration bc \<and> or_zero bc = 0 \<longrightarrow>
          txToOp enc address acc tx = Inr None)"
proof (intro conjI allI impI)
  fix op
  assume "txToOp enc address acc tx = Inr (Some op)"
  then obtain l where st: "txToOp_settle enc acc tx l = Some op"
    using txToOp_SomeD by blast
  from settle_SomeD [OF st] show "\<not> (op_type op = IN \<and> op_value op = 0)" by auto
next
  fix l
  assume "txToOp_switch address tx = Inr (Some l) \<and> l_type l = IN \<and>
          principal (maybeValue l) = 0"
  then have sw: "txToOp_switch address tx = Inr (Some l)"
    and dropped: "txToOp_settle enc acc tx l = None"
    using settle_zero_IN_dropped [of l enc acc tx] by simp_all
  then show "txToOp enc address acc tx = Inr None" by (simp add: txToOp_def)
next
  fix b
  assume "tx_type tx = Activation b \<and> or_zero b = 0"
  then have "tx_type tx = Activation b" and "or_zero b = 0" by simp_all
  from switch_zero_activation [OF this]
  show "txToOp enc address acc tx = Inr None"
    by (simp add: txToOp_def settle_zero_IN_dropped principal_def)
next
  fix bc
  assume "tx_type tx = Migration bc \<and> or_zero bc = 0"
  then have "tx_type tx = Migration bc" and "or_zero bc = 0" by simp_all
  from switch_zero_migration [OF this]
  show "txToOp enc address acc tx = Inr None"
    by (simp add: txToOp_def settle_zero_IN_dropped principal_def)
qed

theorem txToOp_never_zero_IN_witness:
  "(\<exists>op. txToOp sample_encodeOperationId ''A'' ''acc''
            (sample_tx ''1'' (Transaction (Some 50) None (Some ''B'') (Some ''A'')) ''applied'')
          = Inr (Some op) \<and> op_type op = IN \<and> op_value op \<noteq> 0) \<and>
   txToOp sample_encodeOperationId ''A'' ''acc'' (sample_tx ''1'' (Activation (Some 0)) ''applied'')
     = Inr None \<and>
   txToOp sample_encodeOperationId ''A'' ''acc'' (sample_tx ''1'' (Migration None) ''applied'')
     = Inr None"
proof -
  let ?tx = "sample_tx ''1'' (Transaction (Some 50) None (Some ''B'') (Some ''A'')) ''applied''"
  let ?act = "sample_tx ''1'' (Activation (Some 0)) ''applied''"
  let ?mig = "sample_tx ''1'' (Migration None) ''applied''"
  obtain op where h: "txToOp sample_encodeOperationId ''A'' ''acc'' ?tx = Inr (Some op)"
    and ty: "op_type op = IN"
    by (simp add: txToOp_def txToOp_switch_def txToOp_settle_def sample_tx_def hasFailed_def
          truthy_def or_zero_def or_empty_def principal_def Let_def)
  from txToOp_never_zero_IN [of sample_encodeOperationId "''A''" "''acc''" ?tx] h
  have "\<not> (op_type op = IN \<and> op_value op = 0)" by blast
  with h ty have emitted: "\<exists>op. txToOp sample_encodeOperationId ''A'' ''acc'' ?tx = Inr (Some op) \<and>
                             op_type op = IN \<and> op_value op \<noteq> 0"
    by auto
  have a: "tx_type ?act = Activation (Some 0) \<and> or_zero (Some 0) = 0"
    by (simp add: sample_tx_def or_zero_def)
  from txToOp_never_zero_IN [of sample_encodeOperationId "''A''" "''acc''" ?act] a
  have act: "txToOp sample_encodeOperationId ''A'' ''acc'' ?act = Inr None" by blast
  have m: "tx_type ?mig = Migration None \<and> or_zero None = 0"
    by (simp add: sample_tx_def or_zero_def)
  from txToOp_never_zero_IN [of sample_encodeOperationId "''A''" "''acc''" ?mig] m
  have "txToOp sample_encodeOperationId ''A'' ''acc'' ?mig = Inr None" by blast
  with emitted act show ?thesis by blast
qed

text \<open>
  C8. A failed transfer whose target is the account and whose sender is not is dropped,
  whatever its amount.
\<close>

theorem txToOp_failed_incoming:
  assumes "tx_type tx = Transaction amt ini from to"
    and "to = Some address" and "from \<noteq> Some address"
    and "hasFailed tx"
  shows "txToOp enc address acc tx = Inr None"
proof -
  from assms have sw: "txToOp_switch address tx =
      Inr (Some \<lparr>l_type = IN, maybeValue = None,
                 l_senders = [if truthy from then or_empty from
                              else if truthy ini then or_empty ini else []],
                 l_recipients = [or_empty to]\<rparr>)"
    by (simp add: txToOp_switch_def Let_def)
  show ?thesis
    by (simp add: txToOp_def sw settle_zero_IN_dropped principal_def)
qed

theorem txToOp_failed_incoming_witness:
  "txToOp sample_encodeOperationId ''A'' ''acc''
     (sample_tx ''1'' (Transaction (Some 50) None (Some ''B'') (Some ''A'')) ''failed'')
   = Inr None"
proof -
  let ?tx = "sample_tx ''1'' (Transaction (Some 50) None (Some ''B'') (Some ''A'')) ''failed''"
  have k: "tx_type ?tx = Transaction (Some 50) None (Some ''B'') (Some ''A'')"
    by (simp add: sample_tx_def)
  have f: "hasFailed ?tx" by (simp add: hasFailed_def sample_tx_def truthy_def)
  have n: "Some ''B'' \<noteq> Some ''A''" by simp
  from txToOp_failed_incoming [OF k refl n f] show ?thesis .
qed

text \<open>
  C9. Every operation that \<open>txToOp\<close> emits has exactly one sender and exactly one
  recipient.
\<close>

theorem txToOp_one_sender_one_recipient:
  assumes "txToOp enc address acc tx = Inr (Some op)"
  shows "length (senders op) = 1 \<and> length (recipients op) = 1"
proof -
  from assms obtain l where sw: "txToOp_switch address tx = Inr (Some l)"
    and st: "txToOp_settle enc acc tx l = Some op"
    using txToOp_SomeD by blast
  from switch_singletons [OF sw] settle_SomeD [OF st] show ?thesis by simp
qed

theorem txToOp_one_sender_one_recipient_witness:
  "\<exists>op. txToOp sample_encodeOperationId ''A'' ''acc'' (sample_tx ''1'' (Delegation None) ''applied'')
         = Inr (Some op) \<and>
        op_type op = UNDELEGATE \<and> length (senders op) = 1 \<and> recipients op = [[]]"
proof -
  let ?tx = "sample_tx ''1'' (Delegation None) ''applied''"
  obtain op where h: "txToOp sample_encodeOperationId ''A'' ''acc'' ?tx = Inr (Some op)"
    and ty: "op_type op = UNDELEGATE" and rc: "recipients op = [[]]"
    by (simp add: txToOp_def txToOp_switch_def txToOp_settle_def sample_tx_def hasFailed_def
          truthy_def or_zero_def or_empty_def principal_def Let_def)
  with txToOp_one_sender_one_recipient [OF h] show ?thesis by auto
qed

section \<open>Properties of the paginated fetcher\<close>

lemma fetched_Suc_error:
  "page_at api a l c = Inl e \<Longrightarrow> fetched api a l (Suc c) = Inl e"
  by (simp add: fetched_def)

lemma fetched_Suc_page:
  "page_at api a l c = Inr r \<Longrightarrow>
   fetched api a l (Suc c) = Inr (concat (map (page_items api a l) [0..<c]) @ r)"
  by (simp add: fetched_def page_items_def)

lemma cursor_at_next:
  "page_at api a l c = Inr r \<Longrightarrow> r \<noteq> [] \<Longrightarrow> cursor_at api a l (Suc c) = tx_id (last r)"
  by (simp add: page_at_def)

lemma less_Suc_all: "\<forall>i<c. P i \<Longrightarrow> P c \<Longrightarrow> \<forall>i<Suc c. P i"
  by (simp add: less_Suc_eq)

text \<open>
  The loop entered for request \<open>c\<close> with \<open>m > 0\<close> iterations left, after \<open>c\<close> pages none
  of which ended the fetch, with the accumulated pages in \<open>txs\<close> and the current cursor:
  it returns after some request \<open>n\<close>, no later than \<open>c + m\<close>, and before that only at a
  page that ends the fetch.
\<close>

lemma fetch_loop_inv:
  assumes "0 < m"
    and "cur = cursor_at api a l c"
    and "txs = concat (map (page_items api a l) [0..<c])"
    and "\<forall>i<c. \<not> page_stops api a l i"
  shows "\<exists>n. fetch_loop api a c cur txs (int m) = Some (fetched api a l n, n) \<and>
             c < n \<and> n \<le> c + m \<and>
             (\<forall>i<n - 1. \<not> page_stops api a l i) \<and>
             (n < c + m \<longrightarrow> page_stops api a l (n - 1))"
  using assms
proof (induction m arbitrary: c cur txs)
  case 0
  then show ?case by simp
next
  case (Suc m)
  note cur = \<open>cur = cursor_at api a l c\<close>
  note txs = \<open>txs = concat (map (page_items api a l) [0..<c])\<close>
  note before = \<open>\<forall>i<c. \<not> page_stops api a l i\<close>
  show ?case
  proof (cases "page_at api a l c")
    case (Inl e)
    then have run: "fetch_loop api a c cur txs (int (Suc m)) = Some (Inl e, Suc c)"
      using cur by (subst fetch_loop.simps) (simp add: page_at_def)
    have stop: "page_stops api a l c" using Inl by (simp add: page_stops_def)
    show ?thesis
      using run fetched_Suc_error [OF Inl] stop before
      by (intro exI [of _ "Suc c"]) simp
  next
    case (Inr r)
    have api: "api c a cur = Inr r" using Inr cur by (simp add: page_at_def)
    show ?thesis
    proof (cases "r = [] \<or> \<not> truthy (tx_id (last r))")
      case True
      then have run: "fetch_loop api a c cur txs (int (Suc m)) = Some (Inr (txs @ r), Suc c)"
        using api by (subst fetch_loop.simps) (auto simp: Let_def)
      have stop: "page_stops api a l c" using Inr True by (simp add: page_stops_def)
      show ?thesis
        using run fetched_Suc_page [OF Inr] stop before txs
        by (intro exI [of _ "Suc c"]) simp
    next
      case False
      then have ne: "r \<noteq> []" and tr: "truthy (tx_id (last r))" by simp_all
      have nostop: "\<not> page_stops api a l c" using Inr False by (simp add: page_stops_def)
      have before': "\<forall>i<Suc c. \<not> page_stops api a l i"
        using before nostop by (rule less_Suc_all)
      show ?thesis
      proof (cases "m = 0")
        case True
        then have run: "fetch_loop api a c cur txs (int (Suc m)) = Some (Inr (txs @ r), Suc c)"
          using api ne tr by (subst fetch_loop.simps) (simp add: Let_def)
        show ?thesis
          using run fetched_Suc_page [OF Inr] before txs True
          by (intro exI [of _ "Suc c"]) simp
      next
        case False
        then have step: "fetch_loop api a c cur txs (int (Suc m)) =
                         fetch_loop api a (Suc c) (tx_id (last r)) (txs @ r) (int m)"
          using api ne tr by (subst fetch_loop.simps) (simp add: Let_def)
        have txs': "txs @ r = concat (map (page_items api a l) [0..<Suc c])"
          using txs Inr by (simp add: page_items_def)
        from False have "0 < m" by simp
        from Suc.IH [OF this cursor_at_next [OF Inr ne, symmetric] txs' before']
        obtain n where n: "fetch_loop api a (Suc c) (tx_id (last r)) (txs @ r) (int m) =
                             Some (fetched api a l n, n)"
          "Suc c < n" "n \<le> Suc c + m" "\<forall>i<n - 1. \<not> page_stops api a l i"
          "n < Suc c + m \<longrightarrow> page_stops api a l (n - 1)"
          by blast
        show ?thesis
          using step n by (intro exI [of _ n]) simp
      qed
    qed
  qed
qed

lemma fetchAllTransactions_run:
  "\<exists>n. fetchAllTransactions api address lastId = Some (fetched api address lastId n, n) \<and>
       0 < n \<and> n \<le> 20 \<and>
       (\<forall>i<n - 1. \<not> page_stops api address lastId i) \<and>
       (n < 20 \<longrightarrow> page_stops api address lastId (n - 1))"
proof -
  have "\<exists>n. fetch_loop api address 0 lastId [] (int 20) =
               Some (fetched api address lastId n, n) \<and>
             0 < n \<and> n \<le> 0 + 20 \<and>
             (\<forall>i<n - 1. \<not> page_stops api address lastId i) \<and>
             (n < 0 + 20 \<longrightarrow> page_stops api address lastId (n - 1))"
    by (rule fetch_loop_inv) simp_all
  then show ?thesis by (simp add: fetchAllTransactions_def)
qed

text \<open>
  C4. For every indexer, address and starting cursor, \<open>fetchAllTransactions\<close> returns, after
  at least one and at most 20 requests. If page \<open>k\<close> (\<open>k < 20\<close>) is the first that is
  empty, or whose last item has a falsy id, or whose request is rejected, the fetcher
  returns right after request \<open>k\<close>, that is after \<open>k + 1\<close> requests. If none of the first
  20 pages is such a page, it returns after exactly 20 requests. In both cases the result is
  \<open>fetched\<close>: the concatenation of the pages received, or the rejection of the last request.
\<close>

theorem fetchAllTransactions_pages:
  "(\<exists>n. fetchAllTransactions api address lastId = Some (fetched api address lastId n, n) \<and>
        0 < n \<and> n \<le> 20) \<and>
   (\<forall>k<20. page_stops api address lastId k \<and> (\<forall>i<k. \<not> page_stops api address lastId i) \<longrightarrow>
        fetchAllTransactions api address lastId =
          Some (fetched api address lastId (Suc k), Suc k)) \<and>
   ((\<forall>i<20. \<not> page_stops api address lastId i) \<longrightarrow>
        fetchAllTransactions api address lastId = Some (fetched api address lastId 20, 20))"
proof -
  from fetchAllTransactions_run [of api address lastId] obtain n
    where run: "fetchAllTransactions api address lastId = Some (fetched api address lastId n, n)"
      and pos: "0 < n" and le: "n \<le> 20"
      and before: "\<forall>i<n - 1. \<not> page_stops api address lastId i"
      and early: "n < 20 \<longrightarrow> page_stops api address lastId (n - 1)"
    by blast
  have first: "n = Suc k"
    if k: "k < 20" and stop: "page_stops api address lastId k"
      and nostop: "\<forall>i<k. \<not> page_stops api address lastId i" for k
  proof -
    from before stop have "\<not> k < n - 1" by blast
    then have a: "n \<le> Suc k" by simp
    have "\<not> n - 1 < k"
    proof
      assume lt: "n - 1 < k"
      with k have "n < 20" by simp
      with early have "page_stops api address lastId (n - 1)" by simp
      with nostop lt show False by blast
    qed
    with pos have "Suc k \<le> n" by simp
    with a show ?thesis by simp
  qed
  have never: "n = 20" if "\<forall>i<20. \<not> page_stops api address lastId i"
  proof (rule ccontr)
    assume "n \<noteq> 20"
    with le have lt: "n < 20" by simp
    with early have "page_stops api address lastId (n - 1)" by simp
    moreover from lt have "n - 1 < 20" by simp
    ultimately show False using that by blast
  qed
  show ?thesis
  proof (intro conjI allI impI)
    show "\<exists>n. fetchAllTransactions api address lastId =
                 Some (fetched api address lastId n, n) \<and> 0 < n \<and> n \<le> 20"
      using run pos le by blast
  next
    fix k
    assume "k < 20"
      and "page_stops api address lastId k \<and> (\<forall>i<k. \<not> page_stops api address lastId i)"
    then have "n = Suc k" using first by blast
    with run show "fetchAllTransactions api address lastId =
                     Some (fetched api address lastId (Suc k), Suc k)"
      by simp
  next
    assume "\<forall>i<20. \<not> page_stops api address lastId i"
    then have "n = 20" by (rule never)
    with run show "fetchAllTransactions api address lastId =
                     Some (fetched api address lastId 20, 20)"
      by simp
  qed
qed

lemma sample_cursors:
  "cursor_at sample_indexer ''A'' None 0 = None"
  "cursor_at sample_indexer ''A'' None (Suc 0) = Some ''1''"
  "cursor_at sample_indexer ''A'' None (Suc (Suc 0)) = Some ''2''"
  by (simp_all add: sample_indexer_def sample_tx_def)

lemma sample_pages:
  "page_at sample_indexer ''A'' None 0 = Inr [sample_tx ''1'' Reveal ''applied'']"
  "page_at sample_indexer ''A'' None (Suc 0) =
     Inr [sample_tx ''2'' (Activation (Some 9)) ''applied'']"
  "page_at sample_indexer ''A'' None (Suc (Suc 0)) = Inr []"
  by (simp_all add: page_at_def sample_cursors) (simp_all add: sample_indexer_def sample_tx_def)

lemma endless_pages:
  "page_at endless_indexer ''A'' None i = Inr [sample_tx ''7'' Reveal ''applied'']"
  by (simp add: page_at_def endless_indexer_def)

theorem fetchAllTransactions_pages_witness:
  "fetchAllTransactions sample_indexer ''A'' None =
     Some (Inr [sample_tx ''1'' Reveal ''applied'',
                sample_tx ''2'' (Activation (Some 9)) ''applied''], 3) \<and>
   (\<exists>txs. fetchAllTransactions endless_indexer ''A'' None = Some (Inr txs, 20) \<and>
          length txs = 20)"
proof -
  have stop: "page_stops sample_indexer ''A'' None 2"
    using sample_pages(3) by (simp add: page_stops_def numeral_2_eq_2)
  have nostop: "\<forall>i<2. \<not> page_stops sample_indexer ''A'' None i"
    using sample_pages(1,2)
    by (simp add: page_stops_def less_Suc_eq numeral_2_eq_2 sample_tx_def truthy_def)
  have res: "fetched sample_indexer ''A'' None (Suc 2) =
        Inr [sample_tx ''1'' Reveal ''applied'',
             sample_tx ''2'' (Activation (Some 9)) ''applied'']"
    using sample_pages
    by (simp add: fetched_def page_items_def numeral_2_eq_2 upt_rec [of 0])
  from fetchAllTransactions_pages [of sample_indexer "''A''" None]
  have first: "\<forall>k<20. page_stops sample_indexer ''A'' None k \<and>
                 (\<forall>i<k. \<not> page_stops sample_indexer ''A'' None i) \<longrightarrow>
               fetchAllTransactions sample_indexer ''A'' None =
                 Some (fetched sample_indexer ''A'' None (Suc k), Suc k)"
    by simp
  from first [rule_format, of 2] stop nostop
  have "fetchAllTransactions sample_indexer ''A'' None =
          Some (fetched sample_indexer ''A'' None (Suc 2), Suc 2)"
    by simp
  with res have short: "fetchAllTransactions sample_indexer ''A'' None =
     Some (Inr [sample_tx ''1'' Reveal ''applied'',
                sample_tx ''2'' (Activation (Some 9)) ''applied''], 3)"
    by simp
  have going: "\<forall>i<20. \<not> page_stops endless_indexer ''A'' None i"
    by (simp add: page_stops_def endless_pages sample_tx_def truthy_def)
  have all: "fetched endless_indexer ''A'' None 20 =
        Inr (concat (map (\<lambda>i. [sample_tx ''7'' Reveal ''applied'']) [0..<20]))"
  proof -
    have "page_items endless_indexer ''A'' None = (\<lambda>i. [sample_tx ''7'' Reveal ''applied''])"
      by (rule ext) (simp add: page_items_def endless_pages)
    then show ?thesis by (simp add: fetched_def endless_pages)
  qed
  from fetchAllTransactions_pages [of endless_indexer "''A''" None] going
  have "fetchAllTransactions endless_indexer ''A'' None =
          Some (fetched endless_indexer ''A'' None 20, 20)"
    by simp
  with all have "fetchAllTransactions endless_indexer ''A'' None =
      Some (Inr (concat (map (\<lambda>i. [sample_tx ''7'' Reveal ''applied'']) [0..<20])), 20)"
    by simp
  moreover have "length (concat (map (\<lambda>i. [sample_tx ''7'' Reveal ''applied'']) [0..<20])) = 20"
    by (simp add: length_concat comp_def sum_list_triv)
  ultimately show ?thesis using short by blast
qed

section \<open>Properties of the reconciler\<close>













text \<open>
  Without a previous list nothing is reused, notes or no notes: the array returned is the
  new one.
\<close>

lemma reconciliate_no_previous_list:
  "subAccounts acct = None \<Longrightarrow>
   returned (reconciliateSubAccounts s tas (Some acct)) = next_ref s"
  by (simp add: reconciliateSubAccounts_def new_array_def split_beta Let_def)





section \<open>Properties of \<open>estimateMaxSpendable\<close>\<close>

text \<open>
  C10. Whenever \<open>estimateMaxSpendable\<close> resolves, its result is not negative, and it is
  zero for a negative estimate of the wallet and the wallet's estimate otherwise. It resolves
  whenever its collaborators do: the main account and the wallet account are found, a fee
  rate is obtained and the wallet gives an estimate for it.
\<close>

theorem estimateMaxSpendable_nonneg:
  "(\<forall>v. estimateMaxSpendable gm gw gn est tn a p tr = Inr v \<longrightarrow>
        0 \<le> v \<and>
        (\<exists>m w f ms. gm a p = Inr m \<and> gw m = Inr w \<and> fee_per_byte gn m tr = Inr f \<and>
                    est w (tn f) = Inr ms \<and> v = (if ms < 0 then 0 else ms))) \<and>
   (\<forall>m w f ms. gm a p = Inr m \<and> gw m = Inr w \<and> fee_per_byte gn m tr = Inr f \<and>
               est w (tn f) = Inr ms \<longrightarrow>
        estimateMaxSpendable gm gw gn est tn a p tr = Inr (if ms < 0 then 0 else ms))"
proof (intro conjI allI impI)
  fix v
  assume r: "estimateMaxSpendable gm gw gn est tn a p tr = Inr v"
  then obtain m w f ms where c: "gm a p = Inr m" "gw m = Inr w"
      "fee_per_byte gn m tr = Inr f" "est w (tn f) = Inr ms"
      and v: "v = (if ms < 0 then 0 else ms)"
    by (auto simp: estimateMaxSpendable_def split: sum.splits)
  from v show "0 \<le> v" by simp
  from c v show "\<exists>m w f ms. gm a p = Inr m \<and> gw m = Inr w \<and> fee_per_byte gn m tr = Inr f \<and>
                   est w (tn f) = Inr ms \<and> v = (if ms < 0 then 0 else ms)"
    by blast
next
  fix m w f ms
  assume "gm a p = Inr m \<and> gw m = Inr w \<and> fee_per_byte gn m tr = Inr f \<and>
          est w (tn f) = Inr ms"
  then show "estimateMaxSpendable gm gw gn est tn a p tr = Inr (if ms < 0 then 0 else ms)"
    by (simp add: estimateMaxSpendable_def)
qed

theorem estimateMaxSpendable_nonneg_witness:
  "estimateMaxSpendable sample_getMainAccount sample_getWalletAccount
     sample_getAccountNetworkInfo sample_estimateAccountMaxSpendable (\<lambda>f. f)
     150 None None = Inr 0 \<and>
   estimateMaxSpendable sample_getMainAccount sample_getWalletAccount
     sample_getAccountNetworkInfo sample_estimateAccountMaxSpendable (\<lambda>f. f)
     150 None (Some \<lparr>feePerByte = Some 1\<rparr>) = Inr 50"
proof -
  have c1: "sample_getMainAccount 150 None = Inr 150 \<and> sample_getWalletAccount 150 = Inr 150 \<and>
            fee_per_byte sample_getAccountNetworkInfo 150 None = Inr 2 \<and>
            sample_estimateAccountMaxSpendable 150 ((\<lambda>f. f) 2) = Inr (- 50)"
    by (simp add: sample_getMainAccount_def sample_getWalletAccount_def fee_per_byte_def
          sample_getAccountNetworkInfo_def sample_estimateAccountMaxSpendable_def)
  have c2: "sample_getMainAccount 150 None = Inr 150 \<and> sample_getWalletAccount 150 = Inr 150 \<and>
            fee_per_byte sample_getAccountNetworkInfo 150 (Some \<lparr>feePerByte = Some 1\<rparr>) = Inr 1 \<and>
            sample_estimateAccountMaxSpendable 150 ((\<lambda>f. f) 1) = Inr 50"
    by (simp add: sample_getMainAccount_def sample_getWalletAccount_def fee_per_byte_def
          sample_estimateAccountMaxSpendable_def)
  from estimateMaxSpendable_nonneg [of sample_getMainAccount sample_getWalletAccount
      sample_getAccountNetworkInfo sample_estimateAccountMaxSpendable "\<lambda>f. f" 150 None None] c1
  have "estimateMaxSpendable sample_getMainAccount sample_getWalletAccount
          sample_getAccountNetworkInfo sample_estimateAccountMaxSpendable (\<lambda>f. f)
          150 None None = Inr (if (- 50 :: int) < 0 then 0 else - 50)"
    by blast
  moreover
  from estimateMaxSpendable_nonneg [of sample_getMainAccount sample_getWalletAccount
      sample_getAccountNetworkInfo sample_estimateAccountMaxSpendable "\<lambda>f. f" 150 None
      "Some \<lparr>feePerByte = Some 1\<rparr>"] c2
  have "estimateMaxSpendable sample_getMainAccount sample_getWalletAccount
          sample_getAccountNetworkInfo sample_estimateAccountMaxSpendable (\<lambda>f. f)
          150 None (Some \<lparr>feePerByte = Some 1\<rparr>) = Inr (if (50 :: int) < 0 then 0 else 50)"
    by blast
  ultimately show ?thesis by simp
qed

end
